theory Spec2Isabelle
  imports Main "HOL-Library.Word"
begin

unbundle bit_operations_syntax

section \<open>C values\<close>

text \<open>
  The model follows \<^verbatim>\<open>src/merge_file.c\<close>. A \<^verbatim>\<open>char *\<close> that the code compares or copies
  as a string is a \<open>string option\<close>: \<open>None\<close> is \<^verbatim>\<open>NULL\<close>, \<open>Some s\<close> points to the
  NUL-terminated string whose bytes before the terminator are \<open>s\<close>. A pointer to a byte buffer is a \<open>byte list option\<close> in the
  same way. \<^verbatim>\<open>unsigned int\<close> is a 32-bit word, \<^verbatim>\<open>size_t\<close> and \<^verbatim>\<open>long\<close> are 64-bit
  words (the LP64 data model, where converting one into the other keeps the bits), and an
  \<^verbatim>\<open>int\<close> that only carries a status code compared with zero is an \<open>int\<close>.
\<close>

type_synonym cstring = "string option"
type_synonym cbytes = "8 word list option"
type_synonym c_uint = "32 word"
type_synonym c_size = "64 word"

text \<open>
  Reading through a null pointer has no defined result in C. The model makes it a value,
  so that a function returns \<open>Inl Null_dereference\<close> where the C function would read
  through \<^verbatim>\<open>NULL\<close>, and \<open>Inr v\<close> where it returns \<open>v\<close>.
\<close>

datatype fault = Null_dereference

text \<open>
  \<^verbatim>\<open>strcmp\<close> of the C library: the sign of the difference of the first pair of bytes
  (as \<^verbatim>\<open>unsigned char\<close>) that differ, zero when there is none. Both arguments must point
  to strings.
\<close>

fun strcmp_chars :: "string \<Rightarrow> string \<Rightarrow> int" where
  "strcmp_chars [] [] = 0"
| "strcmp_chars [] (b # bs) = - 1"
| "strcmp_chars (a # as) [] = 1"
| "strcmp_chars (a # as) (b # bs) =
     (if a = b then strcmp_chars as bs
      else if (of_char a :: nat) < of_char b then - 1 else 1)"

fun strcmp :: "cstring \<Rightarrow> cstring \<Rightarrow> fault + int" where
  "strcmp (Some s1) (Some s2) = Inr (strcmp_chars s1 s2)"
| "strcmp _ _ = Inl Null_dereference"

section \<open>The data model\<close>

text \<open>
  \<^verbatim>\<open>mmfile_t\<close> of xdiff: a view of a byte buffer (\<^verbatim>\<open>char *ptr; long size;\<close>).
\<close>

record mmfile_t =
  ptr_f :: cbytes
  size_f :: c_size

text \<open>
  \<^verbatim>\<open>git_merge_file_input\<close>, one side of the comparison. The structure is declared in
  \<^verbatim>\<open>merge_file.h\<close>; its fields are the ones \<^verbatim>\<open>merge_file.c\<close> reads and writes. The type
  parameter is the type of an object of the object database, which the input keeps
  alive through \<open>odb_object\<close>.
\<close>

record 'obj git_merge_file_input =
  label :: cstring
  path :: cstring
  mode :: c_uint
  mmfile :: mmfile_t
  odb_object :: "'obj option"

text \<open>\<^verbatim>\<open>#define GIT_MERGE_FILE_SIDE_EXISTS(X) ((X)->mode != 0)\<close>\<close>

definition GIT_MERGE_FILE_SIDE_EXISTS :: "'obj git_merge_file_input \<Rightarrow> bool" where
  "GIT_MERGE_FILE_SIDE_EXISTS X = (mode X \<noteq> 0)"

text \<open>
  Modelled from the spec: the enumerators \<^verbatim>\<open>GIT_FILEMODE_BLOB\<close> and
  \<^verbatim>\<open>GIT_FILEMODE_BLOB_EXECUTABLE\<close> are declared in \<^verbatim>\<open>git2/types.h\<close>, which is not among
  the sources. The spec calls them the plain (regular) blob mode and the executable blob
  mode; the values are the ones the test suite expects (\<^verbatim>\<open>0100644\<close>, \<^verbatim>\<open>0100755\<close>).
\<close>

definition GIT_FILEMODE_BLOB :: c_uint where
  "GIT_FILEMODE_BLOB = 33188"

definition GIT_FILEMODE_BLOB_EXECUTABLE :: c_uint where
  "GIT_FILEMODE_BLOB_EXECUTABLE = 33261"

text \<open>
  The invariant of the data model: a side that exists carries a path. The three
  normalizers establish it (see \<open>input_from_file_valid\<close>, \<open>input_from_index_entry_valid\<close>
  and \<open>input_from_diff_file_valid\<close> below).
\<close>

definition input_valid :: "'obj git_merge_file_input \<Rightarrow> bool" where
  "input_valid X = (mode X = 0 \<or> path X \<noteq> None)"

section \<open>The conflict resolver\<close>

definition merge_file_best_path ::
  "'obj git_merge_file_input \<Rightarrow> 'obj git_merge_file_input \<Rightarrow>
   'obj git_merge_file_input \<Rightarrow> fault + cstring" where
  "merge_file_best_path ancestor ours theirs =
     (if \<not> GIT_MERGE_FILE_SIDE_EXISTS ancestor then
        (case strcmp (path ours) (path theirs) of
           Inl f \<Rightarrow> Inl f
         | Inr c \<Rightarrow> if c = 0 then Inr (path ours) else Inr None)
      else
        (case strcmp (path ancestor) (path ours) of
           Inl f \<Rightarrow> Inl f
         | Inr c \<Rightarrow>
             if c = 0 then Inr (path theirs)
             else
               (case strcmp (path ancestor) (path theirs) of
                  Inl f \<Rightarrow> Inl f
                | Inr c' \<Rightarrow> if c' = 0 then Inr (path ours) else Inr None)))"

text \<open>
  The function returns an \<^verbatim>\<open>int\<close>; the modes it returns are \<^verbatim>\<open>unsigned int\<close> fields and
  enumerators, kept here as the 32 bits they are.
\<close>

definition merge_file_best_mode ::
  "'obj git_merge_file_input \<Rightarrow> 'obj git_merge_file_input \<Rightarrow>
   'obj git_merge_file_input \<Rightarrow> c_uint" where
  "merge_file_best_mode ancestor ours theirs =
     (if \<not> GIT_MERGE_FILE_SIDE_EXISTS ancestor then
        (if mode ours = GIT_FILEMODE_BLOB_EXECUTABLE \<or>
            mode theirs = GIT_FILEMODE_BLOB_EXECUTABLE
         then GIT_FILEMODE_BLOB_EXECUTABLE
         else GIT_FILEMODE_BLOB)
      else if mode ancestor = mode ours then mode theirs
      else if mode ancestor = mode theirs then mode ours
      else 0)"

section \<open>External collaborators\<close>

text \<open>
  \<^verbatim>\<open>mmbuffer_t\<close> of xdiff, the buffer the merge engine fills
  (\<^verbatim>\<open>char *ptr; long size;\<close>), and \<^verbatim>\<open>xmparam_t\<close>, the parameters of a merge
  (\<^verbatim>\<open>xpp\<close> is the \<^verbatim>\<open>flags\<close> word of the embedded \<^verbatim>\<open>xpparam_t\<close>).
\<close>

record mmbuffer_t =
  ptr_b :: cbytes
  size_b :: c_size

record xmparam_t =
  xpp :: c_size
  marker_size :: int
  level :: int
  favor :: int
  style :: int
  ancestor :: cstring
  file1 :: cstring
  file2 :: cstring

text \<open>
  Modelled from the spec: the macros of \<^verbatim>\<open>xdiff/xdiff.h\<close>, which is not among the
  sources. The spec names the engine's favor (normal, ours, theirs, union), its
  simplification level (zealous, zealous_alnum) and its style (plain, diff3); normal and
  plain are the zero a cleared \<^verbatim>\<open>xmparam_t\<close> holds, the others are xdiff's numbers.
\<close>

definition XDL_MERGE_FAVOR_OURS :: int where "XDL_MERGE_FAVOR_OURS = 1"
definition XDL_MERGE_FAVOR_THEIRS :: int where "XDL_MERGE_FAVOR_THEIRS = 2"
definition XDL_MERGE_FAVOR_UNION :: int where "XDL_MERGE_FAVOR_UNION = 3"
definition XDL_MERGE_ZEALOUS :: int where "XDL_MERGE_ZEALOUS = 2"
definition XDL_MERGE_ZEALOUS_ALNUM :: int where "XDL_MERGE_ZEALOUS_ALNUM = 3"
definition XDL_MERGE_DIFF3 :: int where "XDL_MERGE_DIFF3 = 1"

text \<open>
  Modelled from the spec: \<^verbatim>\<open>git_merge_file_favor_t\<close> and \<^verbatim>\<open>git_merge_file_flags_t\<close> are
  declared in \<^verbatim>\<open>git2/merge.h\<close>, which is not among the sources. The favor policy is one
  of Normal, Ours, Theirs and Union; the flags are a bit set with one bit for diff3-style
  markers and one for the alphanumeric-only simplification, and no bit by default.
\<close>

datatype git_merge_file_favor_t =
  GIT_MERGE_FILE_FAVOR_NORMAL
| GIT_MERGE_FILE_FAVOR_OURS
| GIT_MERGE_FILE_FAVOR_THEIRS
| GIT_MERGE_FILE_FAVOR_UNION

definition GIT_MERGE_FILE_DEFAULT :: c_uint where "GIT_MERGE_FILE_DEFAULT = 0"
definition GIT_MERGE_FILE_STYLE_DIFF3 :: c_uint where "GIT_MERGE_FILE_STYLE_DIFF3 = 2"
definition GIT_MERGE_FILE_SIMPLIFY_ALNUM :: c_uint where "GIT_MERGE_FILE_SIMPLIFY_ALNUM = 4"

text \<open>\<^verbatim>\<open>git_buf\<close>, a growable buffer, and \<^verbatim>\<open>GIT_BUF_INIT\<close>, the empty one.\<close>

record git_buf =
  ptr_g :: cbytes
  asize :: c_size
  size_g :: c_size

definition GIT_BUF_INIT :: git_buf where
  "GIT_BUF_INIT = \<lparr>ptr_g = Some [], asize = 0, size_g = 0\<rparr>"

datatype git_error_t = GITERR_MERGE

text \<open>
  The functions this file calls and does not define: the file system, the allocator,
  the object database, the error state and the merge engine. Each is a parameter of the
  model. A function with an effect takes the state of the world \<open>'w\<close> and returns the
  new one; a function that writes through a pointer argument takes the value found there
  and returns the value it leaves. A status code comes first in a result.

  \<^item> \<open>ext_p_stat path\<close>: the status and \<^verbatim>\<open>st.st_mode\<close>;
  \<^item> \<open>ext_git_futils_readbuffer buf path\<close>: the status and the buffer;
  \<^item> \<open>ext_alloc n\<close>: whether an allocation of \<open>n\<close> bytes succeeds;
  \<^item> \<open>ext_git_index__create_mode\<close>: the mode of an index entry for an \<^verbatim>\<open>st_mode\<close>;
  \<^item> \<open>ext_git_buf_detach buf\<close>: the buffer it leaves; \<open>ext_git_buf_free buf\<close>;
  \<^item> \<open>ext_git_repository_odb odb repo\<close>: the status and the database pointer;
  \<^item> \<open>ext_git_odb_read obj odb id\<close>: the status and the object pointer;
  \<^item> \<open>ext_git_odb_object_size\<close>, \<open>ext_git_odb_object_data\<close>: the view of an object;
  \<^item> \<open>ext_xdl_merge orig mf1 mf2 xmp\<close>: the status (negative: failure, otherwise the
    number of conflicts) and the result buffer;
  \<^item> \<open>ext_git_merge_file__input_free\<close>, declared in \<^verbatim>\<open>merge_file.h\<close>;
  \<^item> \<open>ext_free\<close>: \<^verbatim>\<open>free\<close> of the C library.
\<close>

record ('w, 'repo, 'odb, 'obj, 'oid) sys =
  ext_p_stat :: "string \<Rightarrow> 'w \<Rightarrow> (int \<times> c_uint) \<times> 'w"
  ext_git_futils_readbuffer :: "git_buf \<Rightarrow> string \<Rightarrow> 'w \<Rightarrow> (int \<times> git_buf) \<times> 'w"
  ext_alloc :: "nat \<Rightarrow> 'w \<Rightarrow> bool \<times> 'w"
  ext_git_index__create_mode :: "c_uint \<Rightarrow> c_uint"
  ext_giterr_set :: "git_error_t \<Rightarrow> string \<Rightarrow> string list \<Rightarrow> 'w \<Rightarrow> 'w"
  ext_git_buf_detach :: "git_buf \<Rightarrow> 'w \<Rightarrow> git_buf \<times> 'w"
  ext_git_buf_free :: "git_buf \<Rightarrow> 'w \<Rightarrow> 'w"
  ext_git_repository_odb :: "'odb option \<Rightarrow> 'repo \<Rightarrow> 'w \<Rightarrow> (int \<times> 'odb option) \<times> 'w"
  ext_git_odb_read ::
    "'obj option \<Rightarrow> 'odb option \<Rightarrow> 'oid \<Rightarrow> 'w \<Rightarrow> (int \<times> 'obj option) \<times> 'w"
  ext_git_odb_object_size :: "'obj option \<Rightarrow> c_size"
  ext_git_odb_object_data :: "'obj option \<Rightarrow> cbytes"
  ext_git_odb_free :: "'odb option \<Rightarrow> 'w \<Rightarrow> 'w"
  ext_xdl_merge ::
    "mmfile_t \<Rightarrow> mmfile_t \<Rightarrow> mmfile_t \<Rightarrow> xmparam_t \<Rightarrow> 'w \<Rightarrow> (int \<times> mmbuffer_t) \<times> 'w"
  ext_git_merge_file__input_free :: "'obj git_merge_file_input \<Rightarrow> 'w \<Rightarrow> 'w"
  ext_free :: "8 word list \<Rightarrow> 'w \<Rightarrow> 'w"

text \<open>
  The state a call runs in: the world of the collaborators, and the trace of the calls
  to the merge engine and to \<^verbatim>\<open>free\<close>, in the order they were made.
\<close>

datatype event =
  Xdl_merge mmfile_t mmfile_t mmfile_t xmparam_t
| Free "8 word list"

record 'w state =
  world :: 'w
  trace :: "event list"

definition ext_call :: "('w \<Rightarrow> 'a \<times> 'w) \<Rightarrow> 'w state \<Rightarrow> 'a \<times> 'w state" where
  "ext_call f s = (case f (world s) of (r, w) \<Rightarrow> (r, s\<lparr>world := w\<rparr>))"

definition ext_run :: "('w \<Rightarrow> 'w) \<Rightarrow> 'w state \<Rightarrow> 'w state" where
  "ext_run f s = s\<lparr>world := f (world s)\<rparr>"

text \<open>\<^verbatim>\<open>git__strdup\<close>: a copy of the string, or \<^verbatim>\<open>NULL\<close> when the allocation fails.\<close>

definition git__strdup ::
  "('w, 'repo, 'odb, 'obj, 'oid) sys \<Rightarrow> string \<Rightarrow> 'w state \<Rightarrow> cstring \<times> 'w state" where
  "git__strdup sys str s =
     (case ext_call (ext_alloc sys (length str + 1)) s of
        (ok, s') \<Rightarrow> (if ok then Some str else None, s'))"

text \<open>A call to the merge engine, and a call to \<^verbatim>\<open>free\<close>, recorded in the trace.\<close>

definition xdl_merge ::
  "('w, 'repo, 'odb, 'obj, 'oid) sys \<Rightarrow> mmfile_t \<Rightarrow> mmfile_t \<Rightarrow> mmfile_t \<Rightarrow> xmparam_t \<Rightarrow>
   'w state \<Rightarrow> (int \<times> mmbuffer_t) \<times> 'w state" where
  "xdl_merge sys orig mf1 mf2 xmp s =
     (case ext_xdl_merge sys orig mf1 mf2 xmp (world s) of
        (r, w) \<Rightarrow> (r, s\<lparr>world := w, trace := trace s @ [Xdl_merge orig mf1 mf2 xmp]\<rparr>))"

definition free ::
  "('w, 'repo, 'odb, 'obj, 'oid) sys \<Rightarrow> 8 word list \<Rightarrow> 'w state \<Rightarrow> 'w state" where
  "free sys p s = s\<lparr>world := ext_free sys p (world s), trace := trace s @ [Free p]\<rparr>"

section \<open>The input normalizer\<close>

text \<open>
  The descriptors: \<^verbatim>\<open>git_index_entry\<close> and \<^verbatim>\<open>git_diff_file\<close>, with the fields this
  file reads (a record may carry more). The mode of a \<^verbatim>\<open>git_diff_file\<close> is a
  \<^verbatim>\<open>uint16_t\<close>. The paths of a descriptor and of a function argument are strings.
\<close>

record 'oid git_index_entry =
  id_e :: 'oid
  path_e :: string
  mode_e :: c_uint

record 'oid git_diff_file =
  id_d :: 'oid
  path_d :: string
  mode_d :: "16 word"

text \<open>The message of \<^verbatim>\<open>giterr_set(GITERR_MERGE, "Could not read '%s'", path)\<close>.\<close>

definition could_not_read :: string where
  "could_not_read = ''Could not read '' @ [CHR 0x27] @ ''%s'' @ [CHR 0x27]"

text \<open>
  The label \<^verbatim>\<open>done\<close> of \<^verbatim>\<open>git_merge_file__input_from_file\<close>: the buffer is freed when
  \<^verbatim>\<open>error\<close> is not zero, and \<^verbatim>\<open>error\<close> is returned.
\<close>

definition input_from_file_done ::
  "('w, 'repo, 'odb, 'obj, 'oid) sys \<Rightarrow> int \<Rightarrow> git_buf \<Rightarrow> 'obj git_merge_file_input \<Rightarrow>
   'w state \<Rightarrow> (int \<times> 'obj git_merge_file_input) \<times> 'w state" where
  "input_from_file_done sys error data_buf input s =
     (if error \<noteq> 0 then ((error, input), ext_run (ext_git_buf_free sys data_buf) s)
      else ((error, input), s))"

definition git_merge_file__input_from_file ::
  "('w, 'repo, 'odb, 'obj, 'oid) sys \<Rightarrow> 'obj git_merge_file_input \<Rightarrow> string \<Rightarrow>
   'w state \<Rightarrow> (int \<times> 'obj git_merge_file_input) \<times> 'w state" where
  "git_merge_file__input_from_file sys input path_arg s0 =
     (let data_buf = GIT_BUF_INIT in
      case ext_call (ext_p_stat sys path_arg) s0 of
        ((error, st_mode), s1) \<Rightarrow>
          if error < 0 then
            input_from_file_done sys error data_buf input
              (ext_run (ext_giterr_set sys GITERR_MERGE could_not_read [path_arg]) s1)
          else
            (case ext_call (ext_git_futils_readbuffer sys data_buf path_arg) s1 of
               ((error, data_buf), s2) \<Rightarrow>
                 if error < 0 then input_from_file_done sys error data_buf input s2
                 else
                   (case git__strdup sys path_arg s2 of
                      (p, s3) \<Rightarrow>
                        let input = input\<lparr>path := p\<rparr> in
                        if p = None then input_from_file_done sys (- 1) data_buf input s3
                        else
                          let input = input\<lparr>mode := ext_git_index__create_mode sys st_mode\<rparr>;
                              input = input\<lparr>mmfile := (mmfile input)\<lparr>size_f := size_g data_buf\<rparr>\<rparr>;
                              input = input\<lparr>mmfile := (mmfile input)\<lparr>ptr_f := ptr_g data_buf\<rparr>\<rparr>
                          in
                          (case ext_call (ext_git_buf_detach sys data_buf) s3 of
                             (data_buf, s4) \<Rightarrow>
                               let input =
                                     (if label input = None then input\<lparr>label := path input\<rparr>
                                      else input)
                               in input_from_file_done sys error data_buf input s4))))"

text \<open>
  The label \<^verbatim>\<open>done\<close> of the two normalizers that read the object database:
  \<^verbatim>\<open>git_odb_free(odb)\<close>, and \<^verbatim>\<open>error\<close> is returned.
\<close>

definition input_from_odb_done ::
  "('w, 'repo, 'odb, 'obj, 'oid) sys \<Rightarrow> int \<Rightarrow> 'odb option \<Rightarrow> 'obj git_merge_file_input \<Rightarrow>
   'w state \<Rightarrow> (int \<times> 'obj git_merge_file_input) \<times> 'w state" where
  "input_from_odb_done sys error odb input s =
     ((error, input), ext_run (ext_git_odb_free sys odb) s)"

text \<open>
  The pointers \<^verbatim>\<open>input\<close>, \<^verbatim>\<open>repo\<close> and \<^verbatim>\<open>entry\<close> are asserted not to be null; the model
  takes what they point to.
\<close>

definition git_merge_file__input_from_index_entry ::
  "('w, 'repo, 'odb, 'obj, 'oid) sys \<Rightarrow> 'obj git_merge_file_input \<Rightarrow> 'repo \<Rightarrow>
   'oid git_index_entry \<Rightarrow> 'w state \<Rightarrow> (int \<times> 'obj git_merge_file_input) \<times> 'w state" where
  "git_merge_file__input_from_index_entry sys input repo entry s0 =
     (let odb = None in
      if mode_e entry = 0 then ((0, input), s0)
      else
        (case ext_call (ext_git_repository_odb sys odb repo) s0 of
           ((error, odb), s1) \<Rightarrow>
             if error < 0 then input_from_odb_done sys error odb input s1
             else
               (case ext_call (ext_git_odb_read sys (odb_object input) odb (id_e entry)) s1 of
                  ((error, obj), s2) \<Rightarrow>
                    let input = input\<lparr>odb_object := obj\<rparr> in
                    if error < 0 then input_from_odb_done sys error odb input s2
                    else
                      (case git__strdup sys (path_e entry) s2 of
                         (p, s3) \<Rightarrow>
                           let input = input\<lparr>path := p\<rparr> in
                           if p = None then input_from_odb_done sys (- 1) odb input s3
                           else
                             let input = input\<lparr>mode := mode_e entry\<rparr>;
                                 input = input\<lparr>mmfile := (mmfile input)
                                   \<lparr>size_f := ext_git_odb_object_size sys (odb_object input)\<rparr>\<rparr>;
                                 input = input\<lparr>mmfile := (mmfile input)
                                   \<lparr>ptr_f := ext_git_odb_object_data sys (odb_object input)\<rparr>\<rparr>;
                                 input =
                                   (if label input = None then input\<lparr>label := path input\<rparr>
                                    else input)
                             in input_from_odb_done sys error odb input s3))))"

definition git_merge_file__input_from_diff_file ::
  "('w, 'repo, 'odb, 'obj, 'oid) sys \<Rightarrow> 'obj git_merge_file_input \<Rightarrow> 'repo \<Rightarrow>
   'oid git_diff_file \<Rightarrow> 'w state \<Rightarrow> (int \<times> 'obj git_merge_file_input) \<times> 'w state" where
  "git_merge_file__input_from_diff_file sys input repo file s0 =
     (let odb = None in
      if mode_d file = 0 then ((0, input), s0)
      else
        (case ext_call (ext_git_repository_odb sys odb repo) s0 of
           ((error, odb), s1) \<Rightarrow>
             if error < 0 then input_from_odb_done sys error odb input s1
             else
               (case ext_call (ext_git_odb_read sys (odb_object input) odb (id_d file)) s1 of
                  ((error, obj), s2) \<Rightarrow>
                    let input = input\<lparr>odb_object := obj\<rparr> in
                    if error < 0 then input_from_odb_done sys error odb input s2
                    else
                      (case git__strdup sys (path_d file) s2 of
                         (p, s3) \<Rightarrow>
                           let input = input\<lparr>path := p\<rparr> in
                           if p = None then input_from_odb_done sys (- 1) odb input s3
                           else
                             let input = input\<lparr>mode := ucast (mode_d file)\<rparr>;
                                 input = input\<lparr>mmfile := (mmfile input)
                                   \<lparr>size_f := ext_git_odb_object_size sys (odb_object input)\<rparr>\<rparr>;
                                 input = input\<lparr>mmfile := (mmfile input)
                                   \<lparr>ptr_f := ext_git_odb_object_data sys (odb_object input)\<rparr>\<rparr>;
                                 input =
                                   (if label input = None then input\<lparr>label := path input\<rparr>
                                    else input)
                             in input_from_odb_done sys error odb input s3))))"

section \<open>The merge orchestrator\<close>

text \<open>
  \<^verbatim>\<open>git_merge_file_result\<close>, declared in \<^verbatim>\<open>git2/merge.h\<close>, and the value
  \<^verbatim>\<open>memset(out, 0x0, sizeof(git_merge_file_result))\<close> leaves.
\<close>

record git_merge_file_result =
  automergeable :: bool
  path_r :: cstring
  mode_r :: c_uint
  data :: cbytes
  len :: c_size

definition result_zero :: git_merge_file_result where
  "result_zero = \<lparr>automergeable = False, path_r = None, mode_r = 0, data = None, len = 0\<rparr>"

definition xmparam_zero :: xmparam_t where
  "xmparam_zero =
     \<lparr>xpp = 0, marker_size = 0, level = 0, favor = 0, style = 0,
      ancestor = None, file1 = None, file2 = None\<rparr>"

text \<open>
  The parameters \<^verbatim>\<open>git_merge_file__from_inputs\<close> builds for the engine: the assignments
  to \<^verbatim>\<open>xmparam\<close>, in the order of the source.
\<close>

definition from_inputs_xmparam ::
  "'obj git_merge_file_input \<Rightarrow> 'obj git_merge_file_input \<Rightarrow> 'obj git_merge_file_input \<Rightarrow>
   git_merge_file_favor_t \<Rightarrow> c_uint \<Rightarrow> xmparam_t" where
  "from_inputs_xmparam ancestor_in ours theirs favor_arg flags =
     (let xmparam = xmparam_zero;
          xmparam = xmparam\<lparr>ancestor := label ancestor_in\<rparr>;
          xmparam = xmparam\<lparr>file1 := label ours\<rparr>;
          xmparam = xmparam\<lparr>file2 := label theirs\<rparr>;
          xmparam =
            (if favor_arg = GIT_MERGE_FILE_FAVOR_OURS
             then xmparam\<lparr>favor := XDL_MERGE_FAVOR_OURS\<rparr>
             else if favor_arg = GIT_MERGE_FILE_FAVOR_THEIRS
             then xmparam\<lparr>favor := XDL_MERGE_FAVOR_THEIRS\<rparr>
             else if favor_arg = GIT_MERGE_FILE_FAVOR_UNION
             then xmparam\<lparr>favor := XDL_MERGE_FAVOR_UNION\<rparr>
             else xmparam);
          xmparam = xmparam\<lparr>level :=
            (if flags AND GIT_MERGE_FILE_SIMPLIFY_ALNUM \<noteq> 0
             then XDL_MERGE_ZEALOUS_ALNUM else XDL_MERGE_ZEALOUS)\<rparr>;
          xmparam =
            (if flags AND GIT_MERGE_FILE_STYLE_DIFF3 \<noteq> 0
             then xmparam\<lparr>style := XDL_MERGE_DIFF3\<rparr>
             else xmparam)
      in xmparam)"

definition failed_to_merge :: string where
  "failed_to_merge = ''Failed to merge files.''"

text \<open>
  The pointers \<^verbatim>\<open>out\<close>, \<^verbatim>\<open>ancestor\<close>, \<^verbatim>\<open>ours\<close> and \<^verbatim>\<open>theirs\<close> are asserted not to be
  null; the model takes what they point to. The result is the status and the value left
  in \<^verbatim>\<open>*out\<close>.
\<close>

definition git_merge_file__from_inputs ::
  "('w, 'repo, 'odb, 'obj, 'oid) sys \<Rightarrow> git_merge_file_result \<Rightarrow>
   'obj git_merge_file_input \<Rightarrow> 'obj git_merge_file_input \<Rightarrow> 'obj git_merge_file_input \<Rightarrow>
   git_merge_file_favor_t \<Rightarrow> c_uint \<Rightarrow> 'w state \<Rightarrow>
   fault + ((int \<times> git_merge_file_result) \<times> 'w state)" where
  "git_merge_file__from_inputs sys out ancestor_in ours theirs favor_arg flags s0 =
     (let out = result_zero in
      if \<not> GIT_MERGE_FILE_SIDE_EXISTS ours \<or> \<not> GIT_MERGE_FILE_SIDE_EXISTS theirs
      then Inr ((0, out), s0)
      else
        (case merge_file_best_path ancestor_in ours theirs of
           Inl f \<Rightarrow> Inl f
         | Inr p \<Rightarrow>
             let out = out\<lparr>path_r := p\<rparr>;
                 out = out\<lparr>mode_r := merge_file_best_mode ancestor_in ours theirs\<rparr>;
                 xmparam = from_inputs_xmparam ancestor_in ours theirs favor_arg flags
             in
             (case xdl_merge sys (mmfile ancestor_in) (mmfile ours) (mmfile theirs) xmparam s0 of
                ((xdl_result, mmbuffer), s1) \<Rightarrow>
                  if xdl_result < 0 then
                    Inr ((- 1, out),
                         ext_run (ext_giterr_set sys GITERR_MERGE failed_to_merge []) s1)
                  else
                    let out = out\<lparr>automergeable := (xdl_result = 0)\<rparr>;
                        out = out\<lparr>data := ptr_b mmbuffer\<rparr>;
                        out = out\<lparr>len := size_b mmbuffer\<rparr>
                    in Inr ((0, out), s1))))"

section \<open>The public entry points\<close>

text \<open>
  \<^verbatim>\<open>git_merge_file_options\<close>, declared in \<^verbatim>\<open>git2/merge.h\<close>, with the fields this file
  reads. The record is extensible: whatever else the options carry (a favor, a version)
  is the \<open>more\<close> part of the record scheme.
\<close>

record git_merge_file_options =
  ancestor_label :: cstring
  our_label :: cstring
  their_label :: cstring
  flags_o :: c_uint

definition input_zero :: "'obj git_merge_file_input" where
  "input_zero =
     \<lparr>label = None, path = None, mode = 0,
      mmfile = \<lparr>ptr_f = None, size_f = 0\<rparr>, odb_object = None\<rparr>"

text \<open>
  The label \<^verbatim>\<open>done\<close> of the two entry points: the three inputs are released and
  \<^verbatim>\<open>error\<close> is returned.
\<close>

definition merge_file_done ::
  "('w, 'repo, 'odb, 'obj, 'oid) sys \<Rightarrow> int \<Rightarrow> git_merge_file_result \<Rightarrow>
   'obj git_merge_file_input \<Rightarrow> 'obj git_merge_file_input \<Rightarrow> 'obj git_merge_file_input \<Rightarrow>
   'w state \<Rightarrow> (int \<times> git_merge_file_result) \<times> 'w state" where
  "merge_file_done sys error result ancestor_input our_input their_input s =
     (let s = ext_run (ext_git_merge_file__input_free sys ancestor_input) s;
          s = ext_run (ext_git_merge_file__input_free sys our_input) s;
          s = ext_run (ext_git_merge_file__input_free sys their_input) s
      in ((error, result), s))"

text \<open>
  What both entry points do once the three inputs are built: the orchestrator is called,
  and the path of the result, when there is one, is replaced by a copy of it.
\<close>

definition merge_file_from_inputs_and_copy ::
  "('w, 'repo, 'odb, 'obj, 'oid) sys \<Rightarrow> git_merge_file_result \<Rightarrow>
   'obj git_merge_file_input \<Rightarrow> 'obj git_merge_file_input \<Rightarrow> 'obj git_merge_file_input \<Rightarrow>
   c_uint \<Rightarrow> 'w state \<Rightarrow> fault + ((int \<times> git_merge_file_result) \<times> 'w state)" where
  "merge_file_from_inputs_and_copy sys result ancestor_input our_input their_input flags s =
     (case git_merge_file__from_inputs sys result ancestor_input our_input their_input
             GIT_MERGE_FILE_FAVOR_NORMAL flags s of
        Inl f \<Rightarrow> Inl f
      | Inr ((error, result), s1) \<Rightarrow>
          if error < 0
          then Inr (merge_file_done sys error result ancestor_input our_input their_input s1)
          else
            (case path_r result of
               None \<Rightarrow>
                 Inr (merge_file_done sys error result ancestor_input our_input their_input s1)
             | Some p \<Rightarrow>
                 (case git__strdup sys p s1 of
                    (q, s2) \<Rightarrow>
                      let result = result\<lparr>path_r := q\<rparr>;
                          error = (if q = None then - 1 else error)
                      in Inr (merge_file_done sys error result
                                ancestor_input our_input their_input s2))))"

definition git_merge_file ::
  "('w, 'repo, 'odb, 'obj, 'oid) sys \<Rightarrow> git_merge_file_result \<Rightarrow> string \<Rightarrow> string \<Rightarrow> string \<Rightarrow>
   'x git_merge_file_options_scheme option \<Rightarrow> 'w state \<Rightarrow>
   fault + ((int \<times> git_merge_file_result) \<times> 'w state)" where
  "git_merge_file sys result ancestor_path our_path their_path opts s0 =
     (let ancestor_input = input_zero; our_input = input_zero; their_input = input_zero;
          flags = GIT_MERGE_FILE_DEFAULT;
          ancestor_input =
            (case opts of None \<Rightarrow> ancestor_input
             | Some ops \<Rightarrow> ancestor_input\<lparr>label := ancestor_label ops\<rparr>);
          our_input =
            (case opts of None \<Rightarrow> our_input | Some ops \<Rightarrow> our_input\<lparr>label := our_label ops\<rparr>);
          their_input =
            (case opts of None \<Rightarrow> their_input
             | Some ops \<Rightarrow> their_input\<lparr>label := their_label ops\<rparr>);
          flags = (case opts of None \<Rightarrow> flags | Some ops \<Rightarrow> flags_o ops)
      in
      case git_merge_file__input_from_file sys ancestor_input ancestor_path s0 of
        ((error, ancestor_input), s1) \<Rightarrow>
          if error < 0
          then Inr (merge_file_done sys error result ancestor_input our_input their_input s1)
          else
            (case git_merge_file__input_from_file sys our_input our_path s1 of
               ((error, our_input), s2) \<Rightarrow>
                 if error < 0
                 then Inr (merge_file_done sys error result
                             ancestor_input our_input their_input s2)
                 else
                   (case git_merge_file__input_from_file sys their_input their_path s2 of
                      ((error, their_input), s3) \<Rightarrow>
                        if error < 0
                        then Inr (merge_file_done sys error result
                                    ancestor_input our_input their_input s3)
                        else merge_file_from_inputs_and_copy sys result
                               ancestor_input our_input their_input flags s3)))"

definition git_merge_file_from_index ::
  "('w, 'repo, 'odb, 'obj, 'oid) sys \<Rightarrow> git_merge_file_result \<Rightarrow> 'repo \<Rightarrow>
   'oid git_index_entry \<Rightarrow> 'oid git_index_entry \<Rightarrow> 'oid git_index_entry \<Rightarrow>
   'x git_merge_file_options_scheme option \<Rightarrow> 'w state \<Rightarrow>
   fault + ((int \<times> git_merge_file_result) \<times> 'w state)" where
  "git_merge_file_from_index sys result repo ancestor_e ours_e theirs_e opts s0 =
     (let ancestor_input = input_zero; our_input = input_zero; their_input = input_zero;
          flags = GIT_MERGE_FILE_DEFAULT
      in
      case git_merge_file__input_from_index_entry sys ancestor_input repo ancestor_e s0 of
        ((error, ancestor_input), s1) \<Rightarrow>
          if error < 0
          then Inr (merge_file_done sys error result ancestor_input our_input their_input s1)
          else
            (case git_merge_file__input_from_index_entry sys our_input repo ours_e s1 of
               ((error, our_input), s2) \<Rightarrow>
                 if error < 0
                 then Inr (merge_file_done sys error result
                             ancestor_input our_input their_input s2)
                 else
                   (case git_merge_file__input_from_index_entry sys their_input repo theirs_e s2 of
                      ((error, their_input), s3) \<Rightarrow>
                        if error < 0
                        then Inr (merge_file_done sys error result
                                    ancestor_input our_input their_input s3)
                        else
                          let ancestor_input =
                                (case opts of None \<Rightarrow> ancestor_input
                                 | Some ops \<Rightarrow> ancestor_input\<lparr>label := ancestor_label ops\<rparr>);
                              our_input =
                                (case opts of None \<Rightarrow> our_input
                                 | Some ops \<Rightarrow> our_input\<lparr>label := our_label ops\<rparr>);
                              their_input =
                                (case opts of None \<Rightarrow> their_input
                                 | Some ops \<Rightarrow> their_input\<lparr>label := their_label ops\<rparr>);
                              flags = (case opts of None \<Rightarrow> flags | Some ops \<Rightarrow> flags_o ops)
                          in merge_file_from_inputs_and_copy sys result
                               ancestor_input our_input their_input flags s3)))"

text \<open>
  \<^verbatim>\<open>git_merge_file_result_free\<close>: the argument is a pointer that may be null. The buffer
  is released with \<^verbatim>\<open>free\<close>, since xdiff allocated it with \<^verbatim>\<open>malloc\<close>.
\<close>

definition git_merge_file_result_free ::
  "('w, 'repo, 'odb, 'obj, 'oid) sys \<Rightarrow> git_merge_file_result option \<Rightarrow> 'w state \<Rightarrow> 'w state" where
  "git_merge_file_result_free sys result s =
     (case result of
        None \<Rightarrow> s
      | Some r \<Rightarrow> (case data r of None \<Rightarrow> s | Some d \<Rightarrow> free sys d s))"

section \<open>Concrete inputs\<close>

text \<open>
  A side that exists, with a path and a mode and nothing else; collaborators that
  always succeed (the engine reports no conflict), the same with an engine that fails,
  and the same with an engine that reports one conflict; an empty state; options that
  carry a favor besides the fields this file reads.
\<close>

definition ex_side :: "string \<Rightarrow> c_uint \<Rightarrow> unit git_merge_file_input" where
  "ex_side p m = input_zero\<lparr>path := Some p, mode := m\<rparr>"

definition ex_sys :: "(unit, unit, unit, unit, unit) sys" where
  "ex_sys =
     \<lparr>ext_p_stat = (\<lambda>p w. ((0, 33188), w)),
      ext_git_futils_readbuffer =
        (\<lambda>b p w. ((0, \<lparr>ptr_g = Some [48, 10], asize = 3, size_g = 2\<rparr>), w)),
      ext_alloc = (\<lambda>n w. (True, w)),
      ext_git_index__create_mode = (\<lambda>m. m),
      ext_giterr_set = (\<lambda>c f a w. w),
      ext_git_buf_detach = (\<lambda>b w. (GIT_BUF_INIT, w)),
      ext_git_buf_free = (\<lambda>b w. w),
      ext_git_repository_odb = (\<lambda>odb repo w. ((0, Some ()), w)),
      ext_git_odb_read = (\<lambda>obj odb oid w. ((0, Some ()), w)),
      ext_git_odb_object_size = (\<lambda>obj. 2),
      ext_git_odb_object_data = (\<lambda>obj. Some [48, 10]),
      ext_git_odb_free = (\<lambda>odb w. w),
      ext_xdl_merge =
        (\<lambda>orig mf1 mf2 xmp w. ((0, \<lparr>ptr_b = Some [48, 10], size_b = 2\<rparr>), w)),
      ext_git_merge_file__input_free = (\<lambda>i w. w),
      ext_free = (\<lambda>p w. w)\<rparr>"

definition ex_sys_failing :: "(unit, unit, unit, unit, unit) sys" where
  "ex_sys_failing =
     ex_sys\<lparr>ext_xdl_merge :=
       (\<lambda>orig mf1 mf2 xmp w. ((- 1, \<lparr>ptr_b = None, size_b = 0\<rparr>), w))\<rparr>"

definition ex_sys_conflict :: "(unit, unit, unit, unit, unit) sys" where
  "ex_sys_conflict =
     ex_sys\<lparr>ext_xdl_merge :=
       (\<lambda>orig mf1 mf2 xmp w. ((1, \<lparr>ptr_b = Some [60, 10], size_b = 2\<rparr>), w))\<rparr>"

definition ex_state :: "unit state" where
  "ex_state = \<lparr>world = (), trace = []\<rparr>"

record git_merge_file_options_favor = git_merge_file_options +
  favor_o :: git_merge_file_favor_t

definition ex_opts :: git_merge_file_options_favor where
  "ex_opts =
     \<lparr>ancestor_label = None, our_label = Some ''ours'', their_label = Some ''theirs'',
      flags_o = GIT_MERGE_FILE_STYLE_DIFF3, favor_o = GIT_MERGE_FILE_FAVOR_OURS\<rparr>"

section \<open>Properties of the conflict resolver\<close>

lemma strcmp_chars_eq_0: "strcmp_chars s1 s2 = 0 \<longleftrightarrow> s1 = s2"
  by (induction s1 s2 rule: strcmp_chars.induct) auto

lemma best_path_no_fault:
  assumes "input_valid ancestor_in" and "input_valid ours" and "input_valid theirs"
    and "mode ours \<noteq> 0" and "mode theirs \<noteq> 0"
  shows "\<exists>p. merge_file_best_path ancestor_in ours theirs = Inr p"
proof -
  from assms obtain p q where pq: "path ours = Some p" "path theirs = Some q"
    by (auto simp: input_valid_def)
  show ?thesis
  proof (cases "mode ancestor_in = 0")
    case True
    then show ?thesis using pq
      by (simp add: merge_file_best_path_def GIT_MERGE_FILE_SIDE_EXISTS_def)
  next
    case False
    with assms(1) obtain a where "path ancestor_in = Some a"
      by (auto simp: input_valid_def)
    then show ?thesis using pq False
      by (simp add: merge_file_best_path_def GIT_MERGE_FILE_SIDE_EXISTS_def)
  qed
qed

lemma ex_mode: "mode (ex_side p GIT_FILEMODE_BLOB) \<noteq> 0"
  by (simp add: ex_side_def GIT_FILEMODE_BLOB_def)

lemma ex_mode_executable: "mode (ex_side p GIT_FILEMODE_BLOB_EXECUTABLE) \<noteq> 0"
  by (simp add: ex_side_def GIT_FILEMODE_BLOB_EXECUTABLE_def)

lemma ex_valid: "input_valid (ex_side p m)"
  by (simp add: ex_side_def input_valid_def)

lemma ex_zero_mode: "mode (input_zero :: unit git_merge_file_input) = 0"
  by (simp add: input_zero_def)

text \<open>
  C1. When the ancestor does not exist (its mode is zero) and ours and theirs exist,
  \<^verbatim>\<open>merge_file_best_path\<close> returns: it returns the path of ours when the paths of ours
  and theirs are equal strings and \<^verbatim>\<open>NULL\<close> when they differ, so it returns the path of
  ours if and only if the two paths are equal. The path of the ancestor is not read. A
  side that exists carries a path (\<open>input_valid\<close>).
\<close>

theorem best_path_ancestor_absent:
  assumes "mode ancestor_in = 0" and "mode ours \<noteq> 0" and "mode theirs \<noteq> 0"
    and "input_valid ours" and "input_valid theirs"
  shows "merge_file_best_path ancestor_in ours theirs =
           (if path ours = path theirs then Inr (path ours) else Inr None)
         \<and> (merge_file_best_path ancestor_in ours theirs = Inr (path ours)
              \<longleftrightarrow> path ours = path theirs)"
proof -
  from assms obtain p q where pq: "path ours = Some p" "path theirs = Some q"
    by (auto simp: input_valid_def)
  have "merge_file_best_path ancestor_in ours theirs =
          (if p = q then Inr (Some p) else Inr None)"
    using assms(1) pq
    by (simp add: merge_file_best_path_def GIT_MERGE_FILE_SIDE_EXISTS_def strcmp_chars_eq_0)
  then show ?thesis using pq by auto
qed

theorem best_path_ancestor_absent_witness:
  "merge_file_best_path (input_zero :: unit git_merge_file_input)
       (ex_side ''a.txt'' GIT_FILEMODE_BLOB) (ex_side ''a.txt'' GIT_FILEMODE_BLOB_EXECUTABLE)
     = Inr (Some ''a.txt'')
   \<and> merge_file_best_path (input_zero :: unit git_merge_file_input)
       (ex_side ''a.txt'' GIT_FILEMODE_BLOB) (ex_side ''b.txt'' GIT_FILEMODE_BLOB)
     = Inr None"
  using best_path_ancestor_absent [OF ex_zero_mode ex_mode [of "''a.txt''"]
      ex_mode_executable [of "''a.txt''"] ex_valid ex_valid]
    best_path_ancestor_absent [OF ex_zero_mode ex_mode [of "''a.txt''"]
      ex_mode [of "''b.txt''"] ex_valid ex_valid]
  by (simp add: ex_side_def)

text \<open>
  C2. When the ancestor exists (its mode is not zero, so it carries a path) and the
  paths compared are strings, \<^verbatim>\<open>merge_file_best_path\<close> returns the path of theirs
  when the paths of the ancestor and of ours are equal; the path of ours when the
  ancestor's path differs from ours and equals theirs; and \<^verbatim>\<open>NULL\<close> when it differs
  from both. The modes of ours and of theirs are not read, and the path of theirs is
  returned unread in the first case.
\<close>

theorem best_path_ancestor_present:
  assumes "mode ancestor_in \<noteq> 0" and "input_valid ancestor_in" and "path ours \<noteq> None"
  shows "(path ancestor_in = path ours \<longrightarrow>
            merge_file_best_path ancestor_in ours theirs = Inr (path theirs))
         \<and> (path ancestor_in \<noteq> path ours \<and> path theirs \<noteq> None \<longrightarrow>
              merge_file_best_path ancestor_in ours theirs =
                (if path ancestor_in = path theirs then Inr (path ours) else Inr None))"
proof -
  from assms obtain a p where ap: "path ancestor_in = Some a" "path ours = Some p"
    by (auto simp: input_valid_def)
  show ?thesis
  proof (intro conjI impI)
    assume "path ancestor_in = path ours"
    then show "merge_file_best_path ancestor_in ours theirs = Inr (path theirs)"
      using assms(1) ap
      by (simp add: merge_file_best_path_def GIT_MERGE_FILE_SIDE_EXISTS_def strcmp_chars_eq_0)
  next
    assume h: "path ancestor_in \<noteq> path ours \<and> path theirs \<noteq> None"
    then obtain q where q: "path theirs = Some q" by auto
    show "merge_file_best_path ancestor_in ours theirs =
            (if path ancestor_in = path theirs then Inr (path ours) else Inr None)"
      using assms(1) ap q h
      by (simp add: merge_file_best_path_def GIT_MERGE_FILE_SIDE_EXISTS_def strcmp_chars_eq_0)
  qed
qed

theorem best_path_ancestor_present_witness:
  "merge_file_best_path (ex_side ''automergeable.txt'' GIT_FILEMODE_BLOB)
       (ex_side ''automergeable.txt'' GIT_FILEMODE_BLOB_EXECUTABLE)
       (ex_side ''newname.txt'' GIT_FILEMODE_BLOB)
     = Inr (Some ''newname.txt'')
   \<and> merge_file_best_path (ex_side ''a.txt'' GIT_FILEMODE_BLOB)
       (ex_side ''b.txt'' 0) (ex_side ''a.txt'' 0)
     = Inr (Some ''b.txt'')
   \<and> merge_file_best_path (ex_side ''a.txt'' GIT_FILEMODE_BLOB)
       (ex_side ''b.txt'' GIT_FILEMODE_BLOB) (ex_side ''c.txt'' GIT_FILEMODE_BLOB)
     = Inr None
   \<and> merge_file_best_path (ex_side ''a.txt'' GIT_FILEMODE_BLOB)
       (ex_side ''a.txt'' GIT_FILEMODE_BLOB) input_zero
     = Inr None"
proof -
  have s: "path (ex_side p m) \<noteq> None" for p m
    by (simp add: ex_side_def)
  show ?thesis
    using best_path_ancestor_present [OF ex_mode [of "''automergeable.txt''"] ex_valid s,
        of "''automergeable.txt''" GIT_FILEMODE_BLOB_EXECUTABLE
          "ex_side ''newname.txt'' GIT_FILEMODE_BLOB"]
      best_path_ancestor_present [OF ex_mode [of "''a.txt''"] ex_valid s,
        of "''b.txt''" 0 "ex_side ''a.txt'' 0"]
      best_path_ancestor_present [OF ex_mode [of "''a.txt''"] ex_valid s,
        of "''b.txt''" GIT_FILEMODE_BLOB "ex_side ''c.txt'' GIT_FILEMODE_BLOB"]
      best_path_ancestor_present [OF ex_mode [of "''a.txt''"] ex_valid s,
        of "''a.txt''" GIT_FILEMODE_BLOB input_zero]
    by (simp add: ex_side_def input_zero_def)
qed

text \<open>
  The hypothesis on the path of ours cannot be dropped: a side with a null path, as the
  normalizers leave a side that does not exist, makes the first \<^verbatim>\<open>strcmp\<close> read through
  the null pointer. The orchestrator calls the function only when ours and theirs exist.
\<close>

lemma ex_best_path_null_path:
  "merge_file_best_path (ex_side ''a.txt'' GIT_FILEMODE_BLOB) input_zero
     (ex_side ''b.txt'' GIT_FILEMODE_BLOB) = Inl Null_dereference"
  by (simp add: ex_side_def input_zero_def merge_file_best_path_def
      GIT_MERGE_FILE_SIDE_EXISTS_def GIT_FILEMODE_BLOB_def)

text \<open>
  C3. \<^verbatim>\<open>merge_file_best_mode\<close>: when the ancestor does not exist, the executable blob
  mode if ours or theirs has it and the plain blob mode otherwise; when the ancestor
  exists, the mode of theirs if the ancestor's mode equals ours, the mode of ours if it
  differs from ours and equals theirs, and zero if it differs from both.
\<close>

theorem best_mode_cases:
  "(mode ancestor_in = 0 \<longrightarrow>
      merge_file_best_mode ancestor_in ours theirs =
        (if mode ours = GIT_FILEMODE_BLOB_EXECUTABLE \<or> mode theirs = GIT_FILEMODE_BLOB_EXECUTABLE
         then GIT_FILEMODE_BLOB_EXECUTABLE else GIT_FILEMODE_BLOB))
   \<and> (mode ancestor_in \<noteq> 0 \<and> mode ancestor_in = mode ours \<longrightarrow>
        merge_file_best_mode ancestor_in ours theirs = mode theirs)
   \<and> (mode ancestor_in \<noteq> 0 \<and> mode ancestor_in \<noteq> mode ours \<and> mode ancestor_in = mode theirs \<longrightarrow>
        merge_file_best_mode ancestor_in ours theirs = mode ours)
   \<and> (mode ancestor_in \<noteq> 0 \<and> mode ancestor_in \<noteq> mode ours \<and> mode ancestor_in \<noteq> mode theirs \<longrightarrow>
        merge_file_best_mode ancestor_in ours theirs = 0)"
  by (auto simp: merge_file_best_mode_def GIT_MERGE_FILE_SIDE_EXISTS_def)

theorem best_mode_cases_witness:
  "merge_file_best_mode (input_zero :: unit git_merge_file_input)
       (ex_side ''a.txt'' GIT_FILEMODE_BLOB) (ex_side ''a.txt'' GIT_FILEMODE_BLOB_EXECUTABLE)
     = GIT_FILEMODE_BLOB_EXECUTABLE
   \<and> merge_file_best_mode (input_zero :: unit git_merge_file_input)
       (ex_side ''a.txt'' GIT_FILEMODE_BLOB) (ex_side ''a.txt'' 40960)
     = GIT_FILEMODE_BLOB
   \<and> merge_file_best_mode (ex_side ''automergeable.txt'' GIT_FILEMODE_BLOB)
       (ex_side ''automergeable.txt'' GIT_FILEMODE_BLOB_EXECUTABLE)
       (ex_side ''newname.txt'' GIT_FILEMODE_BLOB)
     = GIT_FILEMODE_BLOB_EXECUTABLE
   \<and> merge_file_best_mode (ex_side ''a.txt'' GIT_FILEMODE_BLOB)
       (ex_side ''a.txt'' GIT_FILEMODE_BLOB) (ex_side ''a.txt'' 40960)
     = 40960
   \<and> merge_file_best_mode (ex_side ''a.txt'' GIT_FILEMODE_BLOB)
       (ex_side ''a.txt'' GIT_FILEMODE_BLOB_EXECUTABLE) (ex_side ''a.txt'' 40960)
     = 0"
  using best_mode_cases [of "input_zero :: unit git_merge_file_input"
      "ex_side ''a.txt'' GIT_FILEMODE_BLOB" "ex_side ''a.txt'' GIT_FILEMODE_BLOB_EXECUTABLE"]
    best_mode_cases [of "input_zero :: unit git_merge_file_input"
      "ex_side ''a.txt'' GIT_FILEMODE_BLOB" "ex_side ''a.txt'' 40960"]
    best_mode_cases [of "ex_side ''automergeable.txt'' GIT_FILEMODE_BLOB"
      "ex_side ''automergeable.txt'' GIT_FILEMODE_BLOB_EXECUTABLE"
      "ex_side ''newname.txt'' GIT_FILEMODE_BLOB"]
    best_mode_cases [of "ex_side ''a.txt'' GIT_FILEMODE_BLOB"
      "ex_side ''a.txt'' GIT_FILEMODE_BLOB" "ex_side ''a.txt'' 40960"]
    best_mode_cases [of "ex_side ''a.txt'' GIT_FILEMODE_BLOB"
      "ex_side ''a.txt'' GIT_FILEMODE_BLOB_EXECUTABLE" "ex_side ''a.txt'' 40960"]
  by (simp add: ex_side_def input_zero_def GIT_FILEMODE_BLOB_def
      GIT_FILEMODE_BLOB_EXECUTABLE_def)

section \<open>Properties of the collaborator calls\<close>

lemma ext_call_trace: "ext_call f s = (r, s') \<Longrightarrow> trace s' = trace s"
  by (auto simp: ext_call_def split: prod.splits)

lemma ext_run_trace: "trace (ext_run f s) = trace s"
  by (simp add: ext_run_def)

lemma git__strdup_trace: "git__strdup sys str s = (p, s') \<Longrightarrow> trace s' = trace s"
  by (auto simp: git__strdup_def split: prod.splits dest: ext_call_trace)

lemma git__strdup_result: "git__strdup sys str s = (p, s') \<Longrightarrow> p = None \<or> p = Some str"
  by (auto simp: git__strdup_def split: prod.splits)

section \<open>Properties of the merge orchestrator\<close>

text \<open>
  What \<^verbatim>\<open>git_merge_file__from_inputs\<close> returns once both sides exist, the best path
  is computed and the engine has answered with status \<open>r\<close> and buffer \<open>buf\<close>.
\<close>

lemma from_inputs_engine:
  assumes "mode ours \<noteq> 0" and "mode theirs \<noteq> 0"
    and "merge_file_best_path ancestor_in ours theirs = Inr p"
    and "ext_xdl_merge sys (mmfile ancestor_in) (mmfile ours) (mmfile theirs)
           (from_inputs_xmparam ancestor_in ours theirs favor_arg flags) (world s) = ((r, buf), w)"
  shows "git_merge_file__from_inputs sys out ancestor_in ours theirs favor_arg flags s =
           (let s1 = s\<lparr>world := w,
                       trace := trace s @
                         [Xdl_merge (mmfile ancestor_in) (mmfile ours) (mmfile theirs)
                            (from_inputs_xmparam ancestor_in ours theirs favor_arg flags)]\<rparr>
            in if r < 0
               then Inr ((- 1, \<lparr>automergeable = False, path_r = p,
                                mode_r = merge_file_best_mode ancestor_in ours theirs,
                                data = None, len = 0\<rparr>),
                         ext_run (ext_giterr_set sys GITERR_MERGE failed_to_merge []) s1)
               else Inr ((0, \<lparr>automergeable = (r = 0), path_r = p,
                              mode_r = merge_file_best_mode ancestor_in ours theirs,
                              data = ptr_b buf, len = size_b buf\<rparr>), s1))"
  using assms
  by (simp add: git_merge_file__from_inputs_def GIT_MERGE_FILE_SIDE_EXISTS_def result_zero_def
      xdl_merge_def Let_def)

lemma ex_best_path_same:
  "merge_file_best_path input_zero (ex_side p m) (ex_side p m') = Inr (Some p)"
  by (simp add: merge_file_best_path_def GIT_MERGE_FILE_SIDE_EXISTS_def ex_side_def
      input_zero_def strcmp_chars_eq_0)

lemma ex_best_path_differ:
  "merge_file_best_path (input_zero :: unit git_merge_file_input)
     (ex_side ''a.txt'' m) (ex_side ''b.txt'' m') = Inr None"
  by (simp add: merge_file_best_path_def GIT_MERGE_FILE_SIDE_EXISTS_def ex_side_def
      input_zero_def)

lemma ex_best_mode_blob:
  "merge_file_best_mode input_zero (ex_side p GIT_FILEMODE_BLOB) (ex_side q GIT_FILEMODE_BLOB)
     = 33188"
  by (simp add: merge_file_best_mode_def GIT_MERGE_FILE_SIDE_EXISTS_def ex_side_def
      input_zero_def GIT_FILEMODE_BLOB_def GIT_FILEMODE_BLOB_EXECUTABLE_def)

lemma ex_xmparam:
  "from_inputs_xmparam input_zero (ex_side p m) (ex_side q m') GIT_MERGE_FILE_FAVOR_NORMAL 0 =
     \<lparr>xpp = 0, marker_size = 0, level = 2, favor = 0, style = 0,
      ancestor = None, file1 = None, file2 = None\<rparr>"
  by (simp add: from_inputs_xmparam_def xmparam_zero_def input_zero_def ex_side_def
      XDL_MERGE_ZEALOUS_def)

lemma ex_mmfile:
  "mmfile (ex_side p m) = \<lparr>ptr_f = None, size_f = 0\<rparr>"
  "mmfile (input_zero :: unit git_merge_file_input) = \<lparr>ptr_f = None, size_f = 0\<rparr>"
  by (simp_all add: ex_side_def input_zero_def)

lemma ex_engine_succeeds:
  "ext_xdl_merge ex_sys orig mf1 mf2 xmp w = ((0, \<lparr>ptr_b = Some [48, 10], size_b = 2\<rparr>), ())"
  by (simp add: ex_sys_def)

lemma ex_engine_fails:
  "ext_xdl_merge ex_sys_failing orig mf1 mf2 xmp w = ((- 1, \<lparr>ptr_b = None, size_b = 0\<rparr>), ())"
  by (simp add: ex_sys_failing_def ex_sys_def)

lemma ex_engine_conflict:
  "ext_xdl_merge ex_sys_conflict orig mf1 mf2 xmp w =
     ((1, \<lparr>ptr_b = Some [60, 10], size_b = 2\<rparr>), ())"
  by (simp add: ex_sys_conflict_def ex_sys_def)

text \<open>
  C4. When ours or theirs does not exist (its mode is zero),
  \<^verbatim>\<open>git_merge_file__from_inputs\<close> returns 0 and leaves a result with every field zero
  or null; the state is the one it was called in, so neither the world nor the trace
  has changed: the merge engine was not called.
\<close>

theorem from_inputs_side_absent:
  assumes "mode ours = 0 \<or> mode theirs = 0"
  shows "git_merge_file__from_inputs sys out ancestor_in ours theirs favor_arg flags s =
           Inr ((0, \<lparr>automergeable = False, path_r = None, mode_r = 0,
                     data = None, len = 0\<rparr>), s)"
  using assms
  by (auto simp: git_merge_file__from_inputs_def GIT_MERGE_FILE_SIDE_EXISTS_def result_zero_def)

theorem from_inputs_side_absent_witness:
  "git_merge_file__from_inputs ex_sys result_zero (ex_side ''a.txt'' GIT_FILEMODE_BLOB)
       input_zero (ex_side ''a.txt'' GIT_FILEMODE_BLOB) GIT_MERGE_FILE_FAVOR_NORMAL 0 ex_state =
     Inr ((0, \<lparr>automergeable = False, path_r = None, mode_r = 0, data = None, len = 0\<rparr>),
          \<lparr>world = (), trace = []\<rparr>)"
proof -
  have h: "mode (input_zero :: unit git_merge_file_input) = 0
           \<or> mode (ex_side ''a.txt'' GIT_FILEMODE_BLOB) = 0"
    by (simp add: input_zero_def)
  show ?thesis
    using from_inputs_side_absent [OF h, where sys = ex_sys and out = result_zero
        and ancestor_in = "ex_side ''a.txt'' GIT_FILEMODE_BLOB"
        and favor_arg = GIT_MERGE_FILE_FAVOR_NORMAL and flags = 0 and s = ex_state]
    by (simp add: ex_state_def)
qed

text \<open>
  C5, as amended. When \<^verbatim>\<open>git_merge_file__from_inputs\<close> reaches the merge engine and
  the engine returns a negative status, the call returns \<open>-1\<close>; in the result the
  fields \<^verbatim>\<open>automergeable\<close>, \<^verbatim>\<open>data\<close> and \<^verbatim>\<open>len\<close> are zero or null, and the fields
  \<^verbatim>\<open>path\<close> and \<^verbatim>\<open>mode\<close> hold the best path and the best mode, which were stored before
  the engine was called.
\<close>

theorem from_inputs_engine_failure:
  assumes "mode ours \<noteq> 0" and "mode theirs \<noteq> 0"
    and "merge_file_best_path ancestor_in ours theirs = Inr p"
    and "ext_xdl_merge sys (mmfile ancestor_in) (mmfile ours) (mmfile theirs)
           (from_inputs_xmparam ancestor_in ours theirs favor_arg flags) (world s) = ((r, buf), w)"
    and "r < 0"
  shows "\<exists>s'. git_merge_file__from_inputs sys out ancestor_in ours theirs favor_arg flags s =
           Inr ((- 1, \<lparr>automergeable = False, path_r = p,
                       mode_r = merge_file_best_mode ancestor_in ours theirs,
                       data = None, len = 0\<rparr>), s')"
  using from_inputs_engine [OF assms(1-4), of out] assms(5) by (simp add: Let_def)

theorem from_inputs_engine_failure_witness:
  "\<exists>s'. git_merge_file__from_inputs ex_sys_failing result_zero input_zero
       (ex_side ''a.txt'' GIT_FILEMODE_BLOB) (ex_side ''b.txt'' GIT_FILEMODE_BLOB)
       GIT_MERGE_FILE_FAVOR_NORMAL 0 ex_state =
     Inr ((- 1, \<lparr>automergeable = False, path_r = None, mode_r = 33188,
                 data = None, len = 0\<rparr>), s')"
proof -
  have neg: "(- 1 :: int) < 0" by simp
  show ?thesis
    using from_inputs_engine_failure [OF ex_mode ex_mode ex_best_path_differ
        ex_engine_fails neg, where s = ex_state and out = result_zero]
    by (simp add: ex_best_mode_blob)
qed

text \<open>
  C5 as stated fails: with no ancestor, ours and theirs at the same path with the plain
  blob mode, and an engine that returns \<open>-1\<close>, the call returns \<open>-1\<close> and the result
  holds that path and that mode, not null and zero.
\<close>

theorem from_inputs_engine_failure_counterexample:
  "git_merge_file__from_inputs ex_sys_failing result_zero input_zero
       (ex_side ''a.txt'' GIT_FILEMODE_BLOB) (ex_side ''a.txt'' GIT_FILEMODE_BLOB)
       GIT_MERGE_FILE_FAVOR_NORMAL 0 ex_state =
     Inr ((- 1, \<lparr>automergeable = False, path_r = Some ''a.txt'', mode_r = 33188,
                 data = None, len = 0\<rparr>),
          \<lparr>world = (),
           trace = [Xdl_merge \<lparr>ptr_f = None, size_f = 0\<rparr> \<lparr>ptr_f = None, size_f = 0\<rparr>
                      \<lparr>ptr_f = None, size_f = 0\<rparr>
                      \<lparr>xpp = 0, marker_size = 0, level = 2, favor = 0, style = 0,
                       ancestor = None, file1 = None, file2 = None\<rparr>]\<rparr>)"
  using from_inputs_engine [OF ex_mode [of "''a.txt''"] ex_mode [of "''a.txt''"]
      ex_best_path_same ex_engine_fails, where s = ex_state and out = result_zero]
  by (simp add: ex_best_mode_blob ex_xmparam ex_mmfile ex_state_def ext_run_def)

text \<open>
  C6. When \<^verbatim>\<open>git_merge_file__from_inputs\<close> reaches the merge engine and the engine
  returns a status \<open>r\<close> that is not negative, the call returns 0, \<^verbatim>\<open>automergeable\<close>
  is true exactly when \<open>r\<close> is zero, and \<^verbatim>\<open>data\<close> and \<^verbatim>\<open>len\<close> are the pointer and the size
  of the buffer the engine filled. The trace has the one call to the engine.
\<close>

theorem from_inputs_engine_success:
  assumes "mode ours \<noteq> 0" and "mode theirs \<noteq> 0"
    and "merge_file_best_path ancestor_in ours theirs = Inr p"
    and "ext_xdl_merge sys (mmfile ancestor_in) (mmfile ours) (mmfile theirs)
           (from_inputs_xmparam ancestor_in ours theirs favor_arg flags) (world s) = ((r, buf), w)"
    and "0 \<le> r"
  shows "git_merge_file__from_inputs sys out ancestor_in ours theirs favor_arg flags s =
           Inr ((0, \<lparr>automergeable = (r = 0), path_r = p,
                     mode_r = merge_file_best_mode ancestor_in ours theirs,
                     data = ptr_b buf, len = size_b buf\<rparr>),
                s\<lparr>world := w,
                  trace := trace s @
                    [Xdl_merge (mmfile ancestor_in) (mmfile ours) (mmfile theirs)
                       (from_inputs_xmparam ancestor_in ours theirs favor_arg flags)]\<rparr>)"
  using from_inputs_engine [OF assms(1-4), of out] assms(5) by (simp add: Let_def)

theorem from_inputs_engine_success_witness:
  "git_merge_file__from_inputs ex_sys result_zero input_zero
       (ex_side ''a.txt'' GIT_FILEMODE_BLOB) (ex_side ''a.txt'' GIT_FILEMODE_BLOB)
       GIT_MERGE_FILE_FAVOR_NORMAL 0 ex_state =
     Inr ((0, \<lparr>automergeable = True, path_r = Some ''a.txt'', mode_r = 33188,
               data = Some [48, 10], len = 2\<rparr>),
          \<lparr>world = (),
           trace = [Xdl_merge \<lparr>ptr_f = None, size_f = 0\<rparr> \<lparr>ptr_f = None, size_f = 0\<rparr>
                      \<lparr>ptr_f = None, size_f = 0\<rparr>
                      \<lparr>xpp = 0, marker_size = 0, level = 2, favor = 0, style = 0,
                       ancestor = None, file1 = None, file2 = None\<rparr>]\<rparr>)
   \<and> git_merge_file__from_inputs ex_sys_conflict result_zero input_zero
       (ex_side ''a.txt'' GIT_FILEMODE_BLOB) (ex_side ''a.txt'' GIT_FILEMODE_BLOB)
       GIT_MERGE_FILE_FAVOR_NORMAL 0 ex_state =
     Inr ((0, \<lparr>automergeable = False, path_r = Some ''a.txt'', mode_r = 33188,
               data = Some [60, 10], len = 2\<rparr>),
          \<lparr>world = (),
           trace = [Xdl_merge \<lparr>ptr_f = None, size_f = 0\<rparr> \<lparr>ptr_f = None, size_f = 0\<rparr>
                      \<lparr>ptr_f = None, size_f = 0\<rparr>
                      \<lparr>xpp = 0, marker_size = 0, level = 2, favor = 0, style = 0,
                       ancestor = None, file1 = None, file2 = None\<rparr>]\<rparr>)"
proof -
  have nn: "(0 :: int) \<le> 0" "(0 :: int) \<le> 1" by simp_all
  show ?thesis
    using from_inputs_engine_success [OF ex_mode [of "''a.txt''"] ex_mode [of "''a.txt''"]
        ex_best_path_same ex_engine_succeeds nn(1), where s = ex_state and out = result_zero]
      from_inputs_engine_success [OF ex_mode [of "''a.txt''"] ex_mode [of "''a.txt''"]
        ex_best_path_same ex_engine_conflict nn(2), where s = ex_state and out = result_zero]
    by (simp add: ex_best_mode_blob ex_xmparam ex_mmfile ex_state_def)
qed

section \<open>Properties of the input normalizer\<close>

lemma input_from_file_done_eq:
  "input_from_file_done sys error data_buf input s = ((e, i'), s') \<Longrightarrow>
     e = error \<and> i' = input \<and> trace s' = trace s"
  by (auto simp: input_from_file_done_def ext_run_trace split: if_splits)

lemma input_from_odb_done_eq:
  "input_from_odb_done sys error odb input s = ((e, i'), s') \<Longrightarrow>
     e = error \<and> i' = input \<and> trace s' = trace s"
  by (auto simp: input_from_odb_done_def ext_run_trace)

lemma input_from_file_trace:
  "git_merge_file__input_from_file sys input p s = ((e, i'), s') \<Longrightarrow> trace s' = trace s"
  by (auto simp: git_merge_file__input_from_file_def Let_def ext_run_trace
      split: prod.splits if_splits
      dest!: input_from_file_done_eq ext_call_trace git__strdup_trace)

lemma input_from_file_ok:
  "git_merge_file__input_from_file sys input p s = ((e, i'), s') \<Longrightarrow> 0 \<le> e \<Longrightarrow>
     path i' = Some p \<and> label i' = (if label input = None then Some p else label input)"
  by (auto simp: git_merge_file__input_from_file_def Let_def
      split: prod.splits if_splits
      dest!: input_from_file_done_eq dest: git__strdup_result)

lemma input_from_index_entry_trace:
  "git_merge_file__input_from_index_entry sys input repo entry s = ((e, i'), s') \<Longrightarrow>
     trace s' = trace s"
  by (auto simp: git_merge_file__input_from_index_entry_def Let_def ext_run_trace
      split: prod.splits if_splits
      dest!: input_from_odb_done_eq ext_call_trace git__strdup_trace)

lemma input_from_index_entry_ok:
  "git_merge_file__input_from_index_entry sys input repo entry s = ((e, i'), s') \<Longrightarrow>
     0 \<le> e \<Longrightarrow> mode_e entry \<noteq> 0 \<Longrightarrow>
     path i' = Some (path_e entry) \<and> mode i' = mode_e entry \<and>
     label i' = (if label input = None then Some (path_e entry) else label input)"
  by (auto simp: git_merge_file__input_from_index_entry_def Let_def
      split: prod.splits if_splits
      dest!: input_from_odb_done_eq dest: git__strdup_result)

lemma input_from_diff_file_ok:
  "git_merge_file__input_from_diff_file sys input repo file s = ((e, i'), s') \<Longrightarrow>
     0 \<le> e \<Longrightarrow> mode_d file \<noteq> 0 \<Longrightarrow>
     path i' = Some (path_d file) \<and> mode i' = ucast (mode_d file) \<and>
     label i' = (if label input = None then Some (path_d file) else label input)"
  by (auto simp: git_merge_file__input_from_diff_file_def Let_def
      split: prod.splits if_splits
      dest!: input_from_odb_done_eq dest: git__strdup_result)

lemma input_from_index_entry_noop:
  "mode_e entry = 0 \<Longrightarrow>
     git_merge_file__input_from_index_entry sys input repo entry s = ((0, input), s)"
  by (simp add: git_merge_file__input_from_index_entry_def)

lemma input_from_diff_file_noop:
  "mode_d file = 0 \<Longrightarrow>
     git_merge_file__input_from_diff_file sys input repo file s = ((0, input), s)"
  by (simp add: git_merge_file__input_from_diff_file_def)

text \<open>The normalizers establish the invariant of the data model.\<close>

lemma input_valid_label: "input_valid (i\<lparr>label := l\<rparr>) = input_valid i"
  by (simp add: input_valid_def)

lemma input_valid_zero: "input_valid input_zero"
  by (simp add: input_valid_def input_zero_def)

lemma input_from_file_valid:
  "git_merge_file__input_from_file sys input p s = ((e, i'), s') \<Longrightarrow> 0 \<le> e \<Longrightarrow>
     input_valid i'"
  by (drule (1) input_from_file_ok) (simp add: input_valid_def)

lemma input_from_index_entry_valid:
  assumes "git_merge_file__input_from_index_entry sys input repo entry s = ((e, i'), s')"
    and "0 \<le> e" and "input_valid input"
  shows "input_valid i'"
proof (cases "mode_e entry = 0")
  case True
  with assms show ?thesis by (simp add: input_from_index_entry_noop)
next
  case False
  from input_from_index_entry_ok [OF assms(1,2) False] show ?thesis
    by (simp add: input_valid_def)
qed

lemma input_from_diff_file_valid:
  assumes "git_merge_file__input_from_diff_file sys input repo file s = ((e, i'), s')"
    and "0 \<le> e" and "input_valid input"
  shows "input_valid i'"
proof (cases "mode_d file = 0")
  case True
  with assms show ?thesis by (simp add: input_from_diff_file_noop)
next
  case False
  from input_from_diff_file_ok [OF assms(1,2) False] show ?thesis
    by (simp add: input_valid_def)
qed




text \<open>
  C7. When the mode of the index entry, or of the diff file, is zero, the normalizer
  returns 0 at once: the input is the one it was given, field for field, and the state
  is the one it was called in, so no collaborator was called.
\<close>

theorem input_absent_mode_noop:
  "(mode_e entry = 0 \<longrightarrow>
      git_merge_file__input_from_index_entry sys input repo entry s = ((0, input), s))
   \<and> (mode_d file = 0 \<longrightarrow>
        git_merge_file__input_from_diff_file sys input repo file s = ((0, input), s))"
  by (simp add: git_merge_file__input_from_index_entry_def
      git_merge_file__input_from_diff_file_def)

theorem input_absent_mode_noop_witness:
  "git_merge_file__input_from_index_entry ex_sys (ex_side ''old.txt'' 33188) ()
       \<lparr>id_e = (), path_e = ''a.txt'', mode_e = 0\<rparr> ex_state =
     ((0, ex_side ''old.txt'' 33188), ex_state)
   \<and> git_merge_file__input_from_diff_file ex_sys (ex_side ''old.txt'' 33188) ()
       \<lparr>id_d = (), path_d = ''a.txt'', mode_d = 0\<rparr> ex_state =
     ((0, ex_side ''old.txt'' 33188), ex_state)"
  using input_absent_mode_noop [of "\<lparr>id_e = (), path_e = ''a.txt'', mode_e = 0\<rparr>"
      ex_sys "ex_side ''old.txt'' 33188" "()" ex_state
      "\<lparr>id_d = (), path_d = ''a.txt'', mode_d = 0\<rparr>"]
  by simp



section \<open>Properties of the public entry points\<close>

lemma merge_file_done_eq:
  "merge_file_done sys error result a b c s = ((e, r), s') \<Longrightarrow>
     e = error \<and> r = result \<and> trace s' = trace s"
  by (auto simp: merge_file_done_def Let_def ext_run_trace)

lemma xmparam_favor_normal:
  "favor (from_inputs_xmparam ancestor_in ours theirs GIT_MERGE_FILE_FAVOR_NORMAL flags) = 0"
  by (simp add: from_inputs_xmparam_def xmparam_zero_def Let_def)

text \<open>
  On inputs that satisfy the invariant, the orchestrator called with the Normal favor
  returns, and it calls the engine at most once, with no favor.
\<close>

lemma from_inputs_normal_trace:
  assumes "input_valid ancestor_in" and "input_valid ours" and "input_valid theirs"
  shows "\<exists>e r s'. git_merge_file__from_inputs sys out ancestor_in ours theirs
                    GIT_MERGE_FILE_FAVOR_NORMAL flags s = Inr ((e, r), s')
           \<and> (trace s' = trace s
                \<or> (\<exists>orig mf1 mf2 xmp. trace s' = trace s @ [Xdl_merge orig mf1 mf2 xmp]
                      \<and> favor xmp = 0))"
proof (cases "mode ours = 0 \<or> mode theirs = 0")
  case True
  then show ?thesis
    by (auto simp: git_merge_file__from_inputs_def GIT_MERGE_FILE_SIDE_EXISTS_def)
next
  case False
  then have m: "mode ours \<noteq> 0" "mode theirs \<noteq> 0" by auto
  from best_path_no_fault [OF assms m] obtain p
    where p: "merge_file_best_path ancestor_in ours theirs = Inr p" ..
  obtain r buf w where x: "ext_xdl_merge sys (mmfile ancestor_in) (mmfile ours) (mmfile theirs)
      (from_inputs_xmparam ancestor_in ours theirs GIT_MERGE_FILE_FAVOR_NORMAL flags) (world s)
        = ((r, buf), w)"
    by (metis prod.exhaust)
  show ?thesis
    using from_inputs_engine [OF m p x, of out]
      xmparam_favor_normal [of ancestor_in ours theirs flags]
    by (auto simp: Let_def ext_run_trace)
qed

lemma from_inputs_and_copy_trace:
  assumes "input_valid a" and "input_valid b" and "input_valid c"
  shows "\<exists>e r s'. merge_file_from_inputs_and_copy sys result a b c flags s = Inr ((e, r), s')
           \<and> (trace s' = trace s
                \<or> (\<exists>orig mf1 mf2 xmp. trace s' = trace s @ [Xdl_merge orig mf1 mf2 xmp]
                      \<and> favor xmp = 0))"
proof -
  from from_inputs_normal_trace [OF assms, of sys result flags s]
  obtain e r s1 where f: "git_merge_file__from_inputs sys result a b c
                    GIT_MERGE_FILE_FAVOR_NORMAL flags s = Inr ((e, r), s1)"
    and t: "trace s1 = trace s
                \<or> (\<exists>orig mf1 mf2 xmp. trace s1 = trace s @ [Xdl_merge orig mf1 mf2 xmp]
                      \<and> favor xmp = 0)"
    by blast
  have "\<exists>e' r' s'. merge_file_from_inputs_and_copy sys result a b c flags s = Inr ((e', r'), s')
          \<and> trace s' = trace s1"
    using f
    by (auto simp: merge_file_from_inputs_and_copy_def merge_file_done_def Let_def ext_run_trace
        split: option.splits prod.splits dest: git__strdup_trace)
  then show ?thesis using t by auto
qed

lemma git_merge_file_trace:
  "\<exists>e r s'. git_merge_file sys result ancestor_path our_path their_path opts s
               = Inr ((e, r), s')
     \<and> (trace s' = trace s
          \<or> (\<exists>orig mf1 mf2 xmp. trace s' = trace s @ [Xdl_merge orig mf1 mf2 xmp]
                \<and> favor xmp = 0))"
proof -
  define a0 :: "'d git_merge_file_input" where
    "a0 = (case opts of None \<Rightarrow> input_zero
           | Some ops \<Rightarrow> input_zero\<lparr>label := ancestor_label ops\<rparr>)"
  define b0 :: "'d git_merge_file_input" where
    "b0 = (case opts of None \<Rightarrow> input_zero | Some ops \<Rightarrow> input_zero\<lparr>label := our_label ops\<rparr>)"
  define c0 :: "'d git_merge_file_input" where
    "c0 = (case opts of None \<Rightarrow> input_zero | Some ops \<Rightarrow> input_zero\<lparr>label := their_label ops\<rparr>)"
  define flags where
    "flags = (case opts of None \<Rightarrow> GIT_MERGE_FILE_DEFAULT | Some ops \<Rightarrow> flags_o ops)"
  obtain e1 a1 s1
    where n1: "git_merge_file__input_from_file sys a0 ancestor_path s = ((e1, a1), s1)"
    by (metis prod.exhaust)
  obtain e2 b1 s2
    where n2: "git_merge_file__input_from_file sys b0 our_path s1 = ((e2, b1), s2)"
    by (metis prod.exhaust)
  obtain e3 c1 s3
    where n3: "git_merge_file__input_from_file sys c0 their_path s2 = ((e3, c1), s3)"
    by (metis prod.exhaust)
  note t = input_from_file_trace [OF n1] input_from_file_trace [OF n2]
    input_from_file_trace [OF n3]
  have unf: "git_merge_file sys result ancestor_path our_path their_path opts s =
      (if e1 < 0 then Inr (merge_file_done sys e1 result a1 b0 c0 s1)
       else if e2 < 0 then Inr (merge_file_done sys e2 result a1 b1 c0 s2)
       else if e3 < 0 then Inr (merge_file_done sys e3 result a1 b1 c1 s3)
       else merge_file_from_inputs_and_copy sys result a1 b1 c1 flags s3)"
    using n1 n2 n3
    by (simp add: git_merge_file_def Let_def a0_def b0_def c0_def flags_def)
  show ?thesis
  proof (cases "e1 < 0 \<or> e2 < 0 \<or> e3 < 0")
    case True
    then show ?thesis using unf t
      by (auto simp: merge_file_done_def Let_def ext_run_trace)
  next
    case False
    then have ok: "0 \<le> e1" "0 \<le> e2" "0 \<le> e3" by auto
    from from_inputs_and_copy_trace [OF input_from_file_valid [OF n1 ok(1)]
        input_from_file_valid [OF n2 ok(2)] input_from_file_valid [OF n3 ok(3)],
        of sys result flags s3]
    show ?thesis using unf False t by auto
  qed
qed

lemma git_merge_file_from_index_trace:
  "\<exists>e r s'. git_merge_file_from_index sys result repo ancestor_e ours_e theirs_e opts s
               = Inr ((e, r), s')
     \<and> (trace s' = trace s
          \<or> (\<exists>orig mf1 mf2 xmp. trace s' = trace s @ [Xdl_merge orig mf1 mf2 xmp]
                \<and> favor xmp = 0))"
proof -
  define z :: "'d git_merge_file_input" where "z = input_zero"
  have zv: "input_valid z" by (simp add: z_def input_valid_zero)
  obtain e1 a1 s1
    where n1: "git_merge_file__input_from_index_entry sys z repo ancestor_e s = ((e1, a1), s1)"
    by (metis prod.exhaust)
  obtain e2 b1 s2
    where n2: "git_merge_file__input_from_index_entry sys z repo ours_e s1 = ((e2, b1), s2)"
    by (metis prod.exhaust)
  obtain e3 c1 s3
    where n3: "git_merge_file__input_from_index_entry sys z repo theirs_e s2 = ((e3, c1), s3)"
    by (metis prod.exhaust)
  define a2 where
    "a2 = (case opts of None \<Rightarrow> a1 | Some ops \<Rightarrow> a1\<lparr>label := ancestor_label ops\<rparr>)"
  define b2 where
    "b2 = (case opts of None \<Rightarrow> b1 | Some ops \<Rightarrow> b1\<lparr>label := our_label ops\<rparr>)"
  define c2 where
    "c2 = (case opts of None \<Rightarrow> c1 | Some ops \<Rightarrow> c1\<lparr>label := their_label ops\<rparr>)"
  define flags where
    "flags = (case opts of None \<Rightarrow> GIT_MERGE_FILE_DEFAULT | Some ops \<Rightarrow> flags_o ops)"
  note t = input_from_index_entry_trace [OF n1] input_from_index_entry_trace [OF n2]
    input_from_index_entry_trace [OF n3]
  have unf: "git_merge_file_from_index sys result repo ancestor_e ours_e theirs_e opts s =
      (if e1 < 0 then Inr (merge_file_done sys e1 result a1 z z s1)
       else if e2 < 0 then Inr (merge_file_done sys e2 result a1 b1 z s2)
       else if e3 < 0 then Inr (merge_file_done sys e3 result a1 b1 c1 s3)
       else merge_file_from_inputs_and_copy sys result a2 b2 c2 flags s3)"
    using n1 n2 n3
    by (simp add: git_merge_file_from_index_def Let_def z_def a2_def b2_def c2_def flags_def)
  show ?thesis
  proof (cases "e1 < 0 \<or> e2 < 0 \<or> e3 < 0")
    case True
    then show ?thesis using unf t
      by (auto simp: merge_file_done_def Let_def ext_run_trace)
  next
    case False
    then have ok: "0 \<le> e1" "0 \<le> e2" "0 \<le> e3" by auto
    have v: "input_valid a2" "input_valid b2" "input_valid c2"
      using input_from_index_entry_valid [OF n1 ok(1) zv]
        input_from_index_entry_valid [OF n2 ok(2) zv]
        input_from_index_entry_valid [OF n3 ok(3) zv]
      by (simp_all add: a2_def b2_def c2_def input_valid_label split: option.splits)
    from from_inputs_and_copy_trace [OF v, of sys result flags s3]
    show ?thesis using unf False t by auto
  qed
qed

text \<open>
  The two scenarios of the test suite, run on the concrete collaborators: three files
  at three paths, and three index entries of which theirs is renamed and ours is made
  executable. The options ask for the Ours favor.
\<close>

lemma ex_input_from_file_gen:
  "git_merge_file__input_from_file ex_sys (input_zero\<lparr>label := l\<rparr>) p ex_state =
     ((0, \<lparr>label = (if l = None then Some p else l), path = Some p, mode = 33188,
           mmfile = \<lparr>ptr_f = Some [48, 10], size_f = 2\<rparr>, odb_object = None\<rparr>), ex_state)"
  by (simp add: git_merge_file__input_from_file_def input_from_file_done_def Let_def
      ext_call_def ext_run_def git__strdup_def ex_sys_def ex_state_def input_zero_def)

lemma ex_git_merge_file:
  "git_merge_file ex_sys result_zero ''file1.txt'' ''file2.txt'' ''file3.txt'' (Some ex_opts)
       ex_state =
     Inr ((0, \<lparr>automergeable = True, path_r = None, mode_r = 33188,
               data = Some [48, 10], len = 2\<rparr>),
          \<lparr>world = (),
           trace = [Xdl_merge \<lparr>ptr_f = Some [48, 10], size_f = 2\<rparr>
                      \<lparr>ptr_f = Some [48, 10], size_f = 2\<rparr> \<lparr>ptr_f = Some [48, 10], size_f = 2\<rparr>
                      \<lparr>xpp = 0, marker_size = 0, level = 2, favor = 0, style = 1,
                       ancestor = Some ''file1.txt'', file1 = Some ''ours'',
                       file2 = Some ''theirs''\<rparr>]\<rparr>)"
  apply (simp add: git_merge_file_def Let_def ex_input_from_file_gen ex_opts_def)
  apply (simp add: merge_file_from_inputs_and_copy_def git_merge_file__from_inputs_def
      GIT_MERGE_FILE_SIDE_EXISTS_def merge_file_best_path_def merge_file_best_mode_def
      from_inputs_xmparam_def xmparam_zero_def result_zero_def xdl_merge_def
      merge_file_done_def ext_run_def Let_def)
  apply (simp add: ex_sys_def ex_state_def GIT_MERGE_FILE_STYLE_DIFF3_def
      GIT_MERGE_FILE_SIMPLIFY_ALNUM_def XDL_MERGE_ZEALOUS_def XDL_MERGE_DIFF3_def
      merge_file_done_def ext_run_def Let_def)
  done

lemma ex_input_from_index_entry_gen:
  "m \<noteq> 0 \<Longrightarrow>
   git_merge_file__input_from_index_entry ex_sys input_zero ()
       \<lparr>id_e = (), path_e = p, mode_e = m\<rparr> ex_state =
     ((0, \<lparr>label = Some p, path = Some p, mode = m,
           mmfile = \<lparr>ptr_f = Some [48, 10], size_f = 2\<rparr>, odb_object = Some ()\<rparr>), ex_state)"
  by (simp add: git_merge_file__input_from_index_entry_def input_from_odb_done_def Let_def
      ext_call_def ext_run_def git__strdup_def ex_sys_def ex_state_def input_zero_def)

lemma ex_git_merge_file_from_index:
  "git_merge_file_from_index ex_sys result_zero ()
       \<lparr>id_e = (), path_e = ''automergeable.txt'', mode_e = 33188\<rparr>
       \<lparr>id_e = (), path_e = ''automergeable.txt'', mode_e = 33261\<rparr>
       \<lparr>id_e = (), path_e = ''newname.txt'', mode_e = 33188\<rparr>
       (Some ex_opts) ex_state =
     Inr ((0, \<lparr>automergeable = True, path_r = Some ''newname.txt'', mode_r = 33261,
               data = Some [48, 10], len = 2\<rparr>),
          \<lparr>world = (),
           trace = [Xdl_merge \<lparr>ptr_f = Some [48, 10], size_f = 2\<rparr>
                      \<lparr>ptr_f = Some [48, 10], size_f = 2\<rparr> \<lparr>ptr_f = Some [48, 10], size_f = 2\<rparr>
                      \<lparr>xpp = 0, marker_size = 0, level = 2, favor = 0, style = 1,
                       ancestor = None, file1 = Some ''ours'',
                       file2 = Some ''theirs''\<rparr>]\<rparr>)"
  apply (simp add: git_merge_file_from_index_def Let_def ex_input_from_index_entry_gen ex_opts_def)
  apply (simp add: merge_file_from_inputs_and_copy_def git_merge_file__from_inputs_def
      GIT_MERGE_FILE_SIDE_EXISTS_def merge_file_best_path_def merge_file_best_mode_def
      from_inputs_xmparam_def xmparam_zero_def result_zero_def xdl_merge_def Let_def)
  apply (simp add: ex_sys_def ex_state_def GIT_MERGE_FILE_STYLE_DIFF3_def
      GIT_MERGE_FILE_SIMPLIFY_ALNUM_def XDL_MERGE_ZEALOUS_def XDL_MERGE_DIFF3_def
      merge_file_done_def ext_run_def ext_call_def git__strdup_def Let_def)
  done

text \<open>
  C10. Whatever the options, \<^verbatim>\<open>git_merge_file\<close> and \<^verbatim>\<open>git_merge_file_from_index\<close>
  return, and either leave the trace as it was or add one call to the merge engine, whose
  favor is the zero of a cleared \<^verbatim>\<open>xmparam_t\<close>: the orchestrator was given the Normal
  favor, so the favor is none of Ours, Theirs and Union. The options may carry any other
  field (the \<open>more\<close> part of the record): none reaches the engine as a favor.
\<close>

theorem entry_points_favor_normal:
  "(\<exists>e r s'. git_merge_file sys result ancestor_path our_path their_path opts s
                = Inr ((e, r), s')
      \<and> (trace s' = trace s
           \<or> (\<exists>orig mf1 mf2 xmp. trace s' = trace s @ [Xdl_merge orig mf1 mf2 xmp]
                 \<and> favor xmp = 0
                 \<and> favor xmp \<notin> {XDL_MERGE_FAVOR_OURS, XDL_MERGE_FAVOR_THEIRS,
                                   XDL_MERGE_FAVOR_UNION})))
   \<and> (\<exists>e r s'. git_merge_file_from_index sys result repo ancestor_e ours_e theirs_e opts s
                  = Inr ((e, r), s')
        \<and> (trace s' = trace s
             \<or> (\<exists>orig mf1 mf2 xmp. trace s' = trace s @ [Xdl_merge orig mf1 mf2 xmp]
                   \<and> favor xmp = 0
                   \<and> favor xmp \<notin> {XDL_MERGE_FAVOR_OURS, XDL_MERGE_FAVOR_THEIRS,
                                     XDL_MERGE_FAVOR_UNION})))"
proof -
  have n: "\<And>x :: int. x = 0 \<Longrightarrow>
      x \<notin> {XDL_MERGE_FAVOR_OURS, XDL_MERGE_FAVOR_THEIRS, XDL_MERGE_FAVOR_UNION}"
    by (simp add: XDL_MERGE_FAVOR_OURS_def XDL_MERGE_FAVOR_THEIRS_def XDL_MERGE_FAVOR_UNION_def)
  show ?thesis
    using git_merge_file_trace [of sys result ancestor_path our_path their_path opts s]
      git_merge_file_from_index_trace [of sys result repo ancestor_e ours_e theirs_e opts s] n
    by blast
qed

theorem entry_points_favor_normal_witness:
  "favor_o ex_opts = GIT_MERGE_FILE_FAVOR_OURS
   \<and> (\<exists>e r orig mf1 mf2 xmp.
        git_merge_file ex_sys result_zero ''file1.txt'' ''file2.txt'' ''file3.txt''
            (Some ex_opts) ex_state =
          Inr ((e, r), \<lparr>world = (), trace = [Xdl_merge orig mf1 mf2 xmp]\<rparr>)
        \<and> favor xmp \<notin> {XDL_MERGE_FAVOR_OURS, XDL_MERGE_FAVOR_THEIRS, XDL_MERGE_FAVOR_UNION})
   \<and> (\<exists>e r orig mf1 mf2 xmp.
        git_merge_file_from_index ex_sys result_zero ()
            \<lparr>id_e = (), path_e = ''automergeable.txt'', mode_e = 33188\<rparr>
            \<lparr>id_e = (), path_e = ''automergeable.txt'', mode_e = 33261\<rparr>
            \<lparr>id_e = (), path_e = ''newname.txt'', mode_e = 33188\<rparr>
            (Some ex_opts) ex_state =
          Inr ((e, r), \<lparr>world = (), trace = [Xdl_merge orig mf1 mf2 xmp]\<rparr>)
        \<and> favor xmp \<notin> {XDL_MERGE_FAVOR_OURS, XDL_MERGE_FAVOR_THEIRS, XDL_MERGE_FAVOR_UNION})"
  using entry_points_favor_normal [of ex_sys result_zero "''file1.txt''" "''file2.txt''"
      "''file3.txt''" "Some ex_opts" ex_state "()"
      "\<lparr>id_e = (), path_e = ''automergeable.txt'', mode_e = 33188\<rparr>"
      "\<lparr>id_e = (), path_e = ''automergeable.txt'', mode_e = 33261\<rparr>"
      "\<lparr>id_e = (), path_e = ''newname.txt'', mode_e = 33188\<rparr>"]
  unfolding ex_git_merge_file ex_git_merge_file_from_index
  by (auto simp: ex_opts_def ex_state_def)

section \<open>Properties of the release of a result\<close>

lemma result_free_data:
  "data r = Some d \<Longrightarrow>
     git_merge_file_result_free sys (Some r) s =
       s\<lparr>world := ext_free sys d (world s), trace := trace s @ [Free d]\<rparr>"
  by (simp add: git_merge_file_result_free_def free_def)

text \<open>
  C9. \<^verbatim>\<open>git_merge_file_result_free\<close> of a null pointer, and of a result whose
  \<^verbatim>\<open>data\<close> is null, returns with the state it was called in: the world is unchanged and
  no call to \<^verbatim>\<open>free\<close> is added to the trace.
\<close>

theorem result_free_null_data:
  "git_merge_file_result_free sys None s = s
   \<and> (data r = None \<longrightarrow> git_merge_file_result_free sys (Some r) s = s)"
  by (simp add: git_merge_file_result_free_def)

theorem result_free_null_data_witness:
  "git_merge_file_result_free ex_sys None ex_state = ex_state
   \<and> git_merge_file_result_free ex_sys (Some result_zero) ex_state = ex_state"
  using result_free_null_data [of ex_sys ex_state result_zero]
  by (simp add: result_zero_def)

end
